theory Spec2Isabelle
  imports Main
begin

section \<open>The confound loader of the feature-extraction notebook\<close>

text \<open>
  The one function the notebook defines itself is
  \<^verbatim>\<open>
  def prepare_confounds(conf, key = 'R', transpose=True):
      arrays = {}
      f = h5py.File(conf)
      for k, v in f.items():
          arrays[k] = np.array(v)

      if transpose:
          output = arrays[key].T
      else:
          output = arrays[key]

      return output
  \<close>
  It calls two libraries, h5py and numpy. Their part is modelled first, as far as the
  function uses it; the function itself follows, statement by statement.
\<close>

subsection \<open>Python errors\<close>

text \<open>
  The exceptions that can leave the function. \<open>FileNotFoundError\<close> and
  \<open>PermissionError\<close> are the subclasses of \<open>OSError\<close> for the error numbers
  \<open>ENOENT\<close> and \<open>EACCES\<close>; a \<open>KeyError\<close> carries the key that was looked up.
\<close>

datatype errno = ENOENT | EACCES

datatype py_error = OSError errno | KeyError string

abbreviation FileNotFoundError :: py_error where
  "FileNotFoundError \<equiv> OSError ENOENT"

abbreviation PermissionError :: py_error where
  "PermissionError \<equiv> OSError EACCES"

subsection \<open>numpy arrays\<close>

text \<open>
  An HDF5 dataset as it is stored: its shape and its elements in row-major order.
  It is well formed when it has as many elements as its shape says.
\<close>

record 'a dataset =
  dshape :: "nat list"
  ddata :: "'a list"

definition wf_dataset :: "'a dataset \<Rightarrow> bool" where
  "wf_dataset v = (length (ddata v) = prod_list (dshape v))"

text \<open>
  A numpy array is a buffer of elements with a shape and, for every axis, a stride: the
  distance in the buffer (counted in elements here) between neighbours along that axis.
\<close>

record 'a ndarray =
  shape :: "nat list"
  strides :: "nat list"
  buffer :: "'a list"

text \<open>The strides of a freshly made, C-contiguous array: the last axis varies fastest.\<close>

fun c_strides :: "nat list \<Rightarrow> nat list" where
  "c_strides [] = []"
| "c_strides (d # ds) = prod_list ds # c_strides ds"

text \<open>\<^verbatim>\<open>np.array(v)\<close> on a dataset: the whole dataset is read into a new contiguous array.\<close>

definition np_array :: "'a dataset \<Rightarrow> 'a ndarray" where
  "np_array v = \<lparr>shape = dshape v, strides = c_strides (dshape v), buffer = ddata v\<rparr>"

text \<open>
  \<^verbatim>\<open>a.T\<close>: the view of the same buffer with the order of the axes reversed. For an array
  of any rank numpy reverses the shape and the strides and touches nothing else.
\<close>

definition ndarray_T :: "'a ndarray \<Rightarrow> 'a ndarray" where
  "ndarray_T a = a\<lparr>shape := rev (shape a), strides := rev (strides a)\<rparr>"

definition ndim :: "'a ndarray \<Rightarrow> nat" where
  "ndim a = length (shape a)"

text \<open>
  \<^verbatim>\<open>a[i0, ..., ik]\<close> for non-negative indices: one index per axis, each below the
  extent of its axis (numpy raises IndexError otherwise: \<open>None\<close>).
\<close>

definition item :: "'a ndarray \<Rightarrow> nat list \<Rightarrow> 'a option" where
  "item a idx =
     (if list_all2 (<) idx (shape a)
      then Some (buffer a ! sum_list (map2 (*) idx (strides a)))
      else None)"

text \<open>Row \<^verbatim>\<open>a[i, :]\<close> and column \<^verbatim>\<open>a[:, j]\<close> of a 2-dimensional array, element by element.\<close>

definition row :: "'a ndarray \<Rightarrow> nat \<Rightarrow> 'a option list" where
  "row a i = (case shape a of [m, n] \<Rightarrow> map (\<lambda>j. item a [i, j]) [0..<n] | _ \<Rightarrow> [])"

definition col :: "'a ndarray \<Rightarrow> nat \<Rightarrow> 'a option list" where
  "col a j = (case shape a of [m, n] \<Rightarrow> map (\<lambda>i. item a [i, j]) [0..<m] | _ \<Rightarrow> [])"

subsection \<open>Files and h5py\<close>

text \<open>
  What a path refers to: nothing, a file that cannot be read, or an HDF5 file, which
  is the sequence of its (name, dataset) members in the order \<^verbatim>\<open>items()\<close> enumerates
  them. HDF5 keeps the names of a group unique.
\<close>

datatype 'a fs_entry = Absent | Unreadable | Hdf5 "(string \<times> 'a dataset) list"

text \<open>
  The world the function runs in. It has the file system; the handles that are open,
  each with its number and the name of its file, oldest first; and the arrays that are
  alive without a caller holding them, each under the name it has in the dictionary
  that keeps it. What a function returns belongs to its caller and is no part of the
  world, unless something else refers to it too.
\<close>

record 'a world =
  files :: "string \<Rightarrow> 'a fs_entry"
  handles :: "(nat \<times> string) list"
  kept :: "(string \<times> 'a ndarray) list"

text \<open>The object \<^verbatim>\<open>h5py.File\<close> returns: the number of its handle and the file's name.\<close>

datatype h5file = File (fid: nat) (filename: string)

text \<open>A new handle gets a number that no open handle has.\<close>

fun next_fid :: "(nat \<times> string) list \<Rightarrow> nat" where
  "next_fid [] = 0"
| "next_fid ((i, name) # hs) = max (Suc i) (next_fid hs)"

text \<open>
  \<^verbatim>\<open>h5py.File(name)\<close> with no mode given. The library is taken as it documents itself
  today, where the default mode is \<^verbatim>\<open>'r'\<close>, read only: the call raises when there is no
  such file or the file cannot be read, and otherwise enters a new handle into the table.
  (Releases of h5py before 3.0 tried read/write first and created a missing file; the
  notebook fixes no release.)
\<close>

definition h5py_File :: "'a world \<Rightarrow> string \<Rightarrow> (py_error + h5file) \<times> 'a world" where
  "h5py_File w name =
     (case files w name of
        Absent \<Rightarrow> (Inl FileNotFoundError, w)
      | Unreadable \<Rightarrow> (Inl PermissionError, w)
      | Hdf5 kvs \<Rightarrow>
          (Inr (File (next_fid (handles w)) name),
           w\<lparr>handles := handles w @ [(next_fid (handles w), name)]\<rparr>))"

text \<open>\<^verbatim>\<open>f.items()\<close>: the members of the open file.\<close>

definition h5py_items :: "'a world \<Rightarrow> h5file \<Rightarrow> (string \<times> 'a dataset) list" where
  "h5py_items w f = (case files w (filename f) of Hdf5 kvs \<Rightarrow> kvs | _ \<Rightarrow> [])"

subsection \<open>How a call ends on CPython\<close>

text \<open>
  The notebook runs on CPython (its metadata name Python 3.6.2), which finalises an
  object as soon as nothing refers to it. The function has no \<^verbatim>\<open>with\<close> and no
  \<^verbatim>\<open>close()\<close>, so what becomes of its file is decided by how the call ends.

  When the function returns, its frame is discarded and its locals go with it: the
  dictionary and the arrays in it that were not returned are freed, and the File object
  is finalised, which closes its handle.
\<close>

definition finalize :: "'a world \<Rightarrow> h5file \<Rightarrow> 'a world" where
  "finalize w f = w\<lparr>handles := filter (\<lambda>h. fst h \<noteq> fid f) (handles w)\<rparr>"

text \<open>
  When an exception leaves the function, the traceback of the exception keeps the frame:
  the locals stay alive, so the dictionary keeps its arrays, and a File object among
  them keeps its handle open.
\<close>

definition keep :: "'a world \<Rightarrow> (string \<times> 'a ndarray) list \<Rightarrow> 'a world" where
  "keep w arrays = w\<lparr>kept := kept w @ arrays\<rparr>"

subsection \<open>prepare\_confounds\<close>

text \<open>
  A dictionary is the list of its items in the order of insertion. \<^verbatim>\<open>d[k] = x\<close> replaces
  the value of a key that is there and appends a key that is new.
\<close>

fun setitem :: "(string \<times> 'v) list \<Rightarrow> string \<Rightarrow> 'v \<Rightarrow> (string \<times> 'v) list" where
  "setitem [] k x = [(k, x)]"
| "setitem ((k', x') # d) k x =
     (if k' = k then (k, x) # d else (k', x') # setitem d k x)"

text \<open>\<^verbatim>\<open>d[key]\<close>: a missing key raises KeyError.\<close>

definition getitem :: "(string \<times> 'v) list \<Rightarrow> string \<Rightarrow> py_error + 'v" where
  "getitem d key = (case map_of d key of None \<Rightarrow> Inl (KeyError key) | Some x \<Rightarrow> Inr x)"

text \<open>The loop \<^verbatim>\<open>for k, v in f.items(): arrays[k] = np.array(v)\<close>.\<close>

fun load_arrays ::
  "(string \<times> 'a dataset) list \<Rightarrow> (string \<times> 'a ndarray) list \<Rightarrow> (string \<times> 'a ndarray) list" where
  "load_arrays [] arrays = arrays"
| "load_arrays ((k, v) # kvs) arrays = load_arrays kvs (setitem arrays k (np_array v))"

text \<open>
  The function. It returns its result, or the exception that left it, together with the
  world as it is when the call ends. When \<^verbatim>\<open>h5py.File\<close> raises, the dictionary is still
  empty and no file was opened; when \<^verbatim>\<open>arrays[key]\<close> raises, the dictionary is full and
  the file is open.
\<close>

definition prepare_confounds ::
  "'a world \<Rightarrow> string \<Rightarrow> string \<Rightarrow> bool \<Rightarrow> (py_error + 'a ndarray) \<times> 'a world" where
  "prepare_confounds w conf key transpose' =
     (case h5py_File w conf of
        (Inl e, w') \<Rightarrow> (Inl e, keep w' [])
      | (Inr f, w') \<Rightarrow>
          (let arrays = load_arrays (h5py_items w' f) []
           in if transpose'
              then (case getitem arrays key of
                      Inl e \<Rightarrow> (Inl e, keep w' arrays)
                    | Inr a \<Rightarrow> (Inr (ndarray_T a), finalize w' f))
              else (case getitem arrays key of
                      Inl e \<Rightarrow> (Inl e, keep w' arrays)
                    | Inr a \<Rightarrow> (Inr a, finalize w' f))))"

text \<open>The call with the defaults \<^verbatim>\<open>key = 'R', transpose=True\<close>, as the notebook makes it.\<close>

definition prepare_confounds_default ::
  "'a world \<Rightarrow> string \<Rightarrow> (py_error + 'a ndarray) \<times> 'a world" where
  "prepare_confounds_default w conf = prepare_confounds w conf ''R'' True"

subsection \<open>A small file system to run the function on\<close>

text \<open>
  Two confound files that both bind \<open>R\<close> to the same 2 by 3 matrix, with different other
  members in a different order; the first also holds a 1-dimensional and a
  0-dimensional dataset. A third file cannot be read, and every other path is absent.
  No handle is open and no array is kept.
\<close>

definition confounds_R :: "int dataset" where
  "confounds_R = \<lparr>dshape = [2, 3], ddata = [1, 2, 3, 4, 5, 6]\<rparr>"

definition confounds_motion :: "int dataset" where
  "confounds_motion = \<lparr>dshape = [3], ddata = [7, 8, 9]\<rparr>"

definition confounds_tr :: "int dataset" where
  "confounds_tr = \<lparr>dshape = [], ddata = [2]\<rparr>"

definition sub01 :: "(string \<times> int dataset) list" where
  "sub01 = [(''R'', confounds_R), (''motion'', confounds_motion), (''tr'', confounds_tr)]"

definition sub02 :: "(string \<times> int dataset) list" where
  "sub02 = [(''motion'', \<lparr>dshape = [1], ddata = [0]\<rparr>), (''R'', confounds_R)]"

definition example_world :: "int world" where
  "example_world =
     \<lparr>files = (\<lambda>_. Absent)
        (''sub-01_confounds.h5'' := Hdf5 sub01,
         ''sub-02_confounds.h5'' := Hdf5 sub02,
         ''locked.h5'' := Unreadable),
      handles = [],
      kept = []\<rparr>"

lemmas example_defs =
  example_world_def sub01_def sub02_def confounds_R_def confounds_motion_def confounds_tr_def

lemmas run_defs =
  prepare_confounds_def prepare_confounds_default_def h5py_File_def h5py_items_def
  getitem_def finalize_def keep_def Let_def np_array_def ndarray_T_def

section \<open>Handles\<close>

lemma next_fid_above: "(i, name) \<in> set hs \<Longrightarrow> i < next_fid hs"
  by (induction hs) auto

lemma filter_next_fid: "filter (\<lambda>h. fst h \<noteq> next_fid hs) hs = hs"
  by (rule filter_True) (auto dest: next_fid_above)

text \<open>Finalising the File object that was opened last leaves the table as it was before.\<close>

lemma finalize_h5py_File:
  "files w name = Hdf5 kvs \<Longrightarrow>
     finalize (snd (h5py_File w name)) (File (next_fid (handles w)) name) = w"
  by (simp add: finalize_def h5py_File_def filter_next_fid)

section \<open>The loop and the lookup\<close>

lemma map_of_setitem: "map_of (setitem d k x) = (map_of d)(k \<mapsto> x)"
  by (induction d k x rule: setitem.induct) (auto simp: fun_eq_iff)

lemma load_arrays_other:
  "k \<notin> fst ` set kvs \<Longrightarrow> map_of (load_arrays kvs arrays) k = map_of arrays k"
  by (induction kvs arbitrary: arrays) (auto simp: map_of_setitem)

lemma load_arrays_member:
  "distinct (map fst kvs) \<Longrightarrow> (k, v) \<in> set kvs \<Longrightarrow>
     map_of (load_arrays kvs arrays) k = Some (np_array v)"
proof (induction kvs arbitrary: arrays)
  case Nil
  then show ?case by simp
next
  case (Cons kv kvs)
  obtain k' v' where kv: "kv = (k', v')" by (cases kv)
  show ?case
  proof (cases "(k, v) \<in> set kvs")
    case True
    with Cons kv show ?thesis by simp
  next
    case False
    with Cons.prems kv have eq: "k' = k" "v' = v" by auto
    from Cons.prems kv eq have "k \<notin> fst ` set kvs" by auto
    then show ?thesis using kv eq by (simp add: load_arrays_other map_of_setitem)
  qed
qed

lemma load_arrays_origin:
  "map_of (load_arrays kvs arrays) k = Some a \<Longrightarrow>
     (\<exists>v. (k, v) \<in> set kvs \<and> a = np_array v) \<or> map_of arrays k = Some a"
proof (induction kvs arbitrary: arrays)
  case Nil
  then show ?case by simp
next
  case (Cons kv kvs)
  obtain k' v' where kv: "kv = (k', v')" by (cases kv)
  from Cons.prems kv have "map_of (load_arrays kvs (setitem arrays k' (np_array v'))) k = Some a"
    by simp
  from Cons.IH [OF this] kv show ?case
    by (auto simp: map_of_setitem split: if_splits)
qed

text \<open>
  The dictionary after the loop over members with unique names: one array for every
  member, in the order of the members.
\<close>

lemma setitem_new: "k \<notin> fst ` set d \<Longrightarrow> setitem d k x = d @ [(k, x)]"
  by (induction d k x rule: setitem.induct) auto

lemma load_arrays_distinct_append:
  "distinct (map fst arrays @ map fst kvs) \<Longrightarrow>
     load_arrays kvs arrays = arrays @ map (\<lambda>(k, v). (k, np_array v)) kvs"
proof (induction kvs arbitrary: arrays)
  case Nil
  then show ?case by simp
next
  case (Cons kv kvs)
  obtain k v where kv: "kv = (k, v)" by (cases kv)
  from Cons.prems kv have new: "k \<notin> fst ` set arrays" by auto
  from Cons.prems kv have "distinct (map fst (arrays @ [(k, np_array v)]) @ map fst kvs)"
    by auto
  from Cons.IH [OF this] kv new show ?case
    by (simp add: setitem_new)
qed

lemma load_arrays_distinct:
  "distinct (map fst kvs) \<Longrightarrow> load_arrays kvs [] = map (\<lambda>(k, v). (k, np_array v)) kvs"
  using load_arrays_distinct_append [of "[]" kvs] by simp

text \<open>
  The call on an HDF5 file in one equation: the array is returned and the world is as
  before, or KeyError is raised and the handle and the arrays stay.
\<close>

lemma prepare_confounds_Hdf5:
  assumes "files w conf = Hdf5 kvs"
  shows "prepare_confounds w conf key transpose' =
           (case map_of (load_arrays kvs []) key of
              None \<Rightarrow>
                (Inl (KeyError key),
                 w\<lparr>handles := handles w @ [(next_fid (handles w), conf)],
                    kept := kept w @ load_arrays kvs []\<rparr>)
            | Some a \<Rightarrow> (Inr (if transpose' then ndarray_T a else a), w))"
proof -
  have "finalize (w\<lparr>handles := handles w @ [(next_fid (handles w), conf)]\<rparr>)
          (File (next_fid (handles w)) conf) = w"
    using finalize_h5py_File [OF assms] assms by (simp add: h5py_File_def)
  with assms show ?thesis
    by (simp add: prepare_confounds_def h5py_File_def h5py_items_def getitem_def keep_def
        Let_def split: option.splits)
qed

lemma prepare_confounds_found:
  assumes "files w conf = Hdf5 kvs" and "distinct (map fst kvs)" and "(key, v) \<in> set kvs"
  shows "prepare_confounds w conf key transpose' =
           (Inr (if transpose' then ndarray_T (np_array v) else np_array v), w)"
  using load_arrays_member [OF assms(2,3), of "[]"]
  by (simp add: prepare_confounds_Hdf5 [OF assms(1)])

lemma prepare_confounds_missing:
  assumes "files w conf = Hdf5 kvs" and "key \<notin> fst ` set kvs"
  shows "prepare_confounds w conf key transpose' =
           (Inl (KeyError key),
            w\<lparr>handles := handles w @ [(next_fid (handles w), conf)],
               kept := kept w @ load_arrays kvs []\<rparr>)"
  using load_arrays_other [OF assms(2), of "[]"]
  by (simp add: prepare_confounds_Hdf5 [OF assms(1)])

lemma prepare_confounds_no_file:
  assumes "files w conf = Absent \<or> files w conf = Unreadable"
  shows "prepare_confounds w conf key transpose' =
           (Inl (OSError (if files w conf = Absent then ENOENT else EACCES)), w)"
  using assms by (auto simp: prepare_confounds_def h5py_File_def keep_def)

text \<open>
  Where a returned array comes from: it is the array of a member of the file,
  transposed on request.
\<close>

lemma prepare_confounds_origin:
  assumes "fst (prepare_confounds w conf key transpose') = Inr a"
  shows "\<exists>kvs v. files w conf = Hdf5 kvs \<and> (key, v) \<in> set kvs
           \<and> a = (if transpose' then ndarray_T (np_array v) else np_array v)"
proof (cases "files w conf")
  case Absent
  with assms show ?thesis by (simp add: prepare_confounds_no_file)
next
  case Unreadable
  with assms show ?thesis by (simp add: prepare_confounds_no_file)
next
  case (Hdf5 kvs)
  show ?thesis
  proof (cases "map_of (load_arrays kvs []) key")
    case None
    with assms show ?thesis
      by (simp add: prepare_confounds_Hdf5 [OF Hdf5])
  next
    case (Some b)
    from load_arrays_origin [OF Some] obtain v where v: "(key, v) \<in> set kvs" "b = np_array v"
      by auto
    from assms Some have "a = (if transpose' then ndarray_T b else b)"
      by (simp add: prepare_confounds_Hdf5 [OF Hdf5])
    with Hdf5 v show ?thesis by blast
  qed
qed

text \<open>The world after a call, and what the result depends on.\<close>

lemma prepare_confounds_snd:
  "snd (prepare_confounds w conf key transpose') =
     (case fst (prepare_confounds w conf key transpose') of
        Inr a \<Rightarrow> w
      | Inl (OSError n) \<Rightarrow> w
      | Inl (KeyError k) \<Rightarrow>
          w\<lparr>handles := handles w @ [(next_fid (handles w), conf)],
             kept := kept w @ load_arrays (h5py_items w (File (next_fid (handles w)) conf)) []\<rparr>)"
proof (cases "files w conf")
  case Absent
  then show ?thesis by (simp add: prepare_confounds_no_file)
next
  case Unreadable
  then show ?thesis by (simp add: prepare_confounds_no_file)
next
  case (Hdf5 kvs)
  then show ?thesis
    by (simp add: prepare_confounds_Hdf5 [OF Hdf5] h5py_items_def split: option.splits)
qed

lemma prepare_confounds_files: "files (snd (prepare_confounds w conf key transpose')) = files w"
  by (simp add: prepare_confounds_snd split: sum.splits py_error.splits)

lemma prepare_confounds_fst_files:
  "files w' = files w \<Longrightarrow>
     fst (prepare_confounds w' conf key transpose') = fst (prepare_confounds w conf key transpose')"
  by (simp add: prepare_confounds_def h5py_File_def h5py_items_def getitem_def Let_def
      split: fs_entry.splits option.splits)

section \<open>Transposed views\<close>

lemma ndarray_T_ndarray_T: "ndarray_T (ndarray_T a) = a"
  by (simp add: ndarray_T_def)

lemma length_c_strides: "length (c_strides ds) = length ds"
  by (induction ds) auto

lemma sum_list_map2_rev:
  "length xs = length ys \<Longrightarrow>
     sum_list (map2 (*) (rev xs) (rev ys)) = sum_list (map2 (*) xs (ys :: nat list))"
  by (simp add: zip_rev rev_map [symmetric])

text \<open>
  What \<^verbatim>\<open>.T\<close> means for an array of any rank whose strides fit its shape: the element
  at an index of the array is the element at the reversed index of the view.
\<close>

lemma item_ndarray_T:
  "length (strides a) = length (shape a) \<Longrightarrow> item (ndarray_T a) (rev idx) = item a idx"
  by (auto simp: item_def ndarray_T_def sum_list_map2_rev dest: list_all2_lengthD)

lemma item_ndarray_T_np_array: "item (ndarray_T (np_array v)) (rev idx) = item (np_array v) idx"
  by (rule item_ndarray_T) (simp add: np_array_def length_c_strides)

text \<open>Two dimensions: a stored (p, n) dataset is read row by row.\<close>

lemma item_np_array_2d:
  "dshape v = [p, n] \<Longrightarrow> j < p \<Longrightarrow> i < n \<Longrightarrow>
     item (np_array v) [j, i] = Some (ddata v ! (j * n + i))"
  by (simp add: item_def np_array_def)

lemma item_T_np_array_2d:
  "dshape v = [p, n] \<Longrightarrow> i < n \<Longrightarrow> j < p \<Longrightarrow>
     item (ndarray_T (np_array v)) [i, j] = Some (ddata v ! (j * n + i))"
  using item_ndarray_T_np_array [of v "[j, i]"] by (simp add: item_np_array_2d)

lemma row_T_np_array_2d:
  assumes "dshape v = [p, n]" and "i < n"
  shows "row (ndarray_T (np_array v)) i = col (np_array v) i"
proof -
  have "shape (ndarray_T (np_array v)) = [n, p]"
    using assms by (simp add: ndarray_T_def np_array_def)
  moreover have "shape (np_array v) = [p, n]"
    using assms by (simp add: np_array_def)
  moreover have "item (ndarray_T (np_array v)) [i, j] = item (np_array v) [j, i]" if "j < p" for j
    using assms that by (simp add: item_np_array_2d item_T_np_array_2d)
  ultimately show ?thesis
    by (simp add: row_def col_def)
qed

lemma ndarray_T_low_rank:
  assumes "length (dshape v) < 2"
  shows "ndarray_T (np_array v) = np_array v"
proof -
  have "length (dshape v) = 0 \<or> length (dshape v) = 1"
    using assms by linarith
  then have "rev (dshape v) = dshape v \<and> rev (c_strides (dshape v)) = c_strides (dshape v)"
    by (cases "dshape v") auto
  then show ?thesis
    by (simp add: ndarray_T_def np_array_def)
qed

text \<open>The arrays the function returns have one stride for every axis.\<close>

lemma prepare_confounds_strides:
  assumes "fst (prepare_confounds w conf key transpose') = Inr a"
  shows "length (strides a) = length (shape a)"
proof -
  from prepare_confounds_origin [OF assms] obtain v
    where "a = (if transpose' then ndarray_T (np_array v) else np_array v)"
    by blast
  then show ?thesis
    by (simp add: ndarray_T_def np_array_def length_c_strides)
qed

section \<open>The claims\<close>

text \<open>
  C1. When the file binds \<open>key\<close> to a 2-dimensional array of shape (p, n), the call with
  \<open>transpose=True\<close> returns its transpose: the shape is (n, p), row i of the result is
  column i of the stored array, and element (i, j) is the stored element (j, i). The call
  with \<open>transpose=False\<close> returns the stored array as it is, of shape (p, n).
\<close>

theorem prepare_confounds_transpose:
  assumes "files w conf = Hdf5 kvs" and "distinct (map fst kvs)" and "(key, v) \<in> set kvs"
    and "dshape v = [p, n]" and "wf_dataset v"
  shows "(\<exists>a. fst (prepare_confounds w conf key True) = Inr a
            \<and> a = ndarray_T (np_array v)
            \<and> shape a = [n, p]
            \<and> (\<forall>i<n. row a i = col (np_array v) i)
            \<and> (\<forall>i<n. \<forall>j<p. item a [i, j] = Some (ddata v ! (j * n + i))))
       \<and> fst (prepare_confounds w conf key False) = Inr (np_array v)
       \<and> shape (np_array v) = [p, n]
       \<and> (\<forall>j<p. \<forall>i<n. item (np_array v) [j, i] = Some (ddata v ! (j * n + i)))"
proof -
  have t: "fst (prepare_confounds w conf key True) = Inr (ndarray_T (np_array v))"
    and f: "fst (prepare_confounds w conf key False) = Inr (np_array v)"
    using prepare_confounds_found [OF assms(1-3)] by simp_all
  have s: "shape (ndarray_T (np_array v)) = [n, p]" "shape (np_array v) = [p, n]"
    using assms(4) by (simp_all add: ndarray_T_def np_array_def)
  show ?thesis
    using t f s assms(4)
    by (simp add: row_T_np_array_2d item_np_array_2d item_T_np_array_2d)
qed

theorem prepare_confounds_transpose_witness:
  "files example_world ''sub-01_confounds.h5'' = Hdf5 sub01
   \<and> distinct (map fst sub01) \<and> (''R'', confounds_R) \<in> set sub01
   \<and> dshape confounds_R = [2, 3] \<and> wf_dataset confounds_R
   \<and> fst (prepare_confounds example_world ''sub-01_confounds.h5'' ''R'' True)
       = Inr \<lparr>shape = [3, 2], strides = [1, 3], buffer = [1, 2, 3, 4, 5, 6]\<rparr>
   \<and> row \<lparr>shape = [3, 2], strides = [1, 3], buffer = [1, 2, 3, 4, 5, 6 :: int]\<rparr> 0
       = [Some 1, Some 4]
   \<and> col (np_array confounds_R) 0 = [Some 1, Some 4]
   \<and> fst (prepare_confounds_default example_world ''sub-01_confounds.h5'')
       = Inr \<lparr>shape = [3, 2], strides = [1, 3], buffer = [1, 2, 3, 4, 5, 6]\<rparr>
   \<and> fst (prepare_confounds example_world ''sub-01_confounds.h5'' ''R'' False)
       = Inr \<lparr>shape = [2, 3], strides = [3, 1], buffer = [1, 2, 3, 4, 5, 6]\<rparr>"
proof -
  have h: "files example_world ''sub-01_confounds.h5'' = Hdf5 sub01"
    "distinct (map fst sub01)" "(''R'', confounds_R) \<in> set sub01"
    "dshape confounds_R = [2, 3]" "wf_dataset confounds_R"
    by (simp_all add: example_defs wf_dataset_def)
  have r: "row \<lparr>shape = [3, 2], strides = [1, 3], buffer = [1, 2, 3, 4, 5, 6 :: int]\<rparr> 0
             = [Some 1, Some 4]"
    "col (np_array confounds_R) 0 = [Some 1, Some 4]"
    by (simp_all add: row_def col_def item_def np_array_def confounds_R_def upt_rec)
  have d: "prepare_confounds_default example_world ''sub-01_confounds.h5''
             = prepare_confounds example_world ''sub-01_confounds.h5'' ''R'' True"
    by (simp add: prepare_confounds_default_def)
  show ?thesis
    using h r d prepare_confounds_transpose [OF h]
    by (simp add: np_array_def ndarray_T_def confounds_R_def)
qed

text \<open>
  C2. When the requested key is not among the names of the file's members, the call
  raises KeyError for that key, whatever \<open>transpose\<close> is.
\<close>

theorem prepare_confounds_missing_key:
  assumes "files w conf = Hdf5 kvs" and "key \<notin> fst ` set kvs"
  shows "fst (prepare_confounds w conf key transpose') = Inl (KeyError key)"
  using prepare_confounds_missing [OF assms] by simp

theorem prepare_confounds_missing_key_witness:
  "files example_world ''sub-01_confounds.h5'' = Hdf5 sub01
   \<and> ''missing_key'' \<notin> fst ` set sub01
   \<and> fst (prepare_confounds example_world ''sub-01_confounds.h5'' ''missing_key'' True)
       = Inl (KeyError ''missing_key'')
   \<and> fst (prepare_confounds example_world ''sub-01_confounds.h5'' ''missing_key'' False)
       = Inl (KeyError ''missing_key'')"
proof -
  have f: "files example_world ''sub-01_confounds.h5'' = Hdf5 sub01"
    by (simp add: example_defs)
  have k: "''missing_key'' \<notin> fst ` set sub01"
    by (simp add: sub01_def)
  show ?thesis
    using f k prepare_confounds_missing_key [OF f k, of True]
      prepare_confounds_missing_key [OF f k, of False]
    by simp
qed

text \<open>
  C3. When the path names no file, or a file that cannot be read, the call raises an
  OSError (FileNotFoundError for a missing file, PermissionError for an unreadable one):
  the error of the spec's kind FileAccessError. No array is returned and the world is
  as it was: nothing was opened.
\<close>

theorem prepare_confounds_file_access_error:
  assumes "files w conf = Absent \<or> files w conf = Unreadable"
  shows "prepare_confounds w conf key transpose' =
           (Inl (OSError (if files w conf = Absent then ENOENT else EACCES)), w)"
  using assms by (rule prepare_confounds_no_file)

theorem prepare_confounds_file_access_error_witness:
  "files example_world ''/nonexistent/path'' = Absent
   \<and> prepare_confounds example_world ''/nonexistent/path'' ''R'' True
       = (Inl FileNotFoundError, example_world)
   \<and> files example_world ''locked.h5'' = Unreadable
   \<and> prepare_confounds example_world ''locked.h5'' ''R'' True
       = (Inl PermissionError, example_world)"
proof -
  have a: "files example_world ''/nonexistent/path'' = Absent"
    and u: "files example_world ''locked.h5'' = Unreadable"
    by (simp_all add: example_world_def)
  from a have a': "files example_world ''/nonexistent/path'' = Absent
      \<or> files example_world ''/nonexistent/path'' = Unreadable" by simp
  from u have u': "files example_world ''locked.h5'' = Absent
      \<or> files example_world ''locked.h5'' = Unreadable" by simp
  show ?thesis
    using a u prepare_confounds_file_access_error [OF a', of "''R''" True]
      prepare_confounds_file_access_error [OF u', of "''R''" True]
    by simp
qed

text \<open>
  C4, as the spec has it, fails on the code: the member \<open>motion\<close> of the first example
  file is 1-dimensional, and the call with \<open>transpose=True\<close> returns an array instead of
  raising an error.
\<close>

theorem prepare_confounds_low_rank_counterexample:
  "ndim (np_array confounds_motion) = 1
   \<and> fst (prepare_confounds example_world ''sub-01_confounds.h5'' ''motion'' True)
       = Inr \<lparr>shape = [3], strides = [1], buffer = [7, 8, 9]\<rparr>"
  by (simp add: example_defs run_defs ndim_def)

text \<open>
  C4, amended. When the array bound to the requested key has fewer than 2 dimensions and
  a transpose is requested, the call raises nothing: it returns an array, the same one
  that the call with \<open>transpose=False\<close> returns.
\<close>

theorem prepare_confounds_low_rank:
  assumes "files w conf = Hdf5 kvs" and "distinct (map fst kvs)" and "(key, v) \<in> set kvs"
    and "length (dshape v) < 2"
  shows "\<exists>a. fst (prepare_confounds w conf key True) = Inr a
            \<and> fst (prepare_confounds w conf key False) = Inr a"
  using prepare_confounds_found [OF assms(1-3)] ndarray_T_low_rank [OF assms(4)] by simp

theorem prepare_confounds_low_rank_witness:
  "files example_world ''sub-01_confounds.h5'' = Hdf5 sub01
   \<and> distinct (map fst sub01) \<and> (''tr'', confounds_tr) \<in> set sub01
   \<and> length (dshape confounds_tr) < 2
   \<and> fst (prepare_confounds example_world ''sub-01_confounds.h5'' ''tr'' True)
       = Inr \<lparr>shape = [], strides = [], buffer = [2]\<rparr>
   \<and> fst (prepare_confounds example_world ''sub-01_confounds.h5'' ''tr'' False)
       = Inr \<lparr>shape = [], strides = [], buffer = [2]\<rparr>"
proof -
  have h: "files example_world ''sub-01_confounds.h5'' = Hdf5 sub01"
    "distinct (map fst sub01)" "(''tr'', confounds_tr) \<in> set sub01"
    "length (dshape confounds_tr) < 2"
    by (simp_all add: example_defs)
  have e: "fst (prepare_confounds example_world ''sub-01_confounds.h5'' ''tr'' False)
       = Inr \<lparr>shape = [], strides = [], buffer = [2]\<rparr>"
    by (simp add: example_defs run_defs)
  show ?thesis
    using h e prepare_confounds_low_rank [OF h] by auto
qed

text \<open>
  C5, as the spec has it, fails on the code, on one of its two exit paths. No handle is
  open before the call on the first example file with a key the file does not have; the
  call ends with KeyError, and the handle of the file is open.
\<close>

theorem prepare_confounds_handle_counterexample:
  "handles example_world = []
   \<and> fst (prepare_confounds example_world ''sub-01_confounds.h5'' ''missing_key'' True)
       = Inl (KeyError ''missing_key'')
   \<and> handles (snd (prepare_confounds example_world ''sub-01_confounds.h5'' ''missing_key'' True))
       = [(0, ''sub-01_confounds.h5'')]"
  by (simp add: example_defs run_defs)

text \<open>
  C5, amended. On successful return the handle acquired for the confound file is
  released: the handles open after the call are exactly those open before it. On
  failure when the requested key is absent the handle is not released: it is open when
  the call ends, after the handles that were open before. (When the file cannot be
  opened no handle was acquired, and the table is as before.)
\<close>

theorem prepare_confounds_handles:
  "handles (snd (prepare_confounds w conf key transpose')) =
     (case fst (prepare_confounds w conf key transpose') of
        Inr a \<Rightarrow> handles w
      | Inl (OSError n) \<Rightarrow> handles w
      | Inl (KeyError k) \<Rightarrow> handles w @ [(next_fid (handles w), conf)])"
  by (simp add: prepare_confounds_snd split: sum.splits py_error.splits)

theorem prepare_confounds_handles_witness:
  "fst (prepare_confounds (example_world\<lparr>handles := [(3, ''sub-02_confounds.h5'')]\<rparr>)
          ''sub-01_confounds.h5'' ''R'' True)
     = Inr \<lparr>shape = [3, 2], strides = [1, 3], buffer = [1, 2, 3, 4, 5, 6]\<rparr>
   \<and> handles (snd (prepare_confounds (example_world\<lparr>handles := [(3, ''sub-02_confounds.h5'')]\<rparr>)
          ''sub-01_confounds.h5'' ''R'' True))
       = [(3, ''sub-02_confounds.h5'')]
   \<and> fst (prepare_confounds (example_world\<lparr>handles := [(3, ''sub-02_confounds.h5'')]\<rparr>)
          ''sub-01_confounds.h5'' ''missing_key'' True)
       = Inl (KeyError ''missing_key'')
   \<and> handles (snd (prepare_confounds (example_world\<lparr>handles := [(3, ''sub-02_confounds.h5'')]\<rparr>)
          ''sub-01_confounds.h5'' ''missing_key'' True))
       = [(3, ''sub-02_confounds.h5''), (4, ''sub-01_confounds.h5'')]"
proof -
  let ?w = "example_world\<lparr>handles := [(3, ''sub-02_confounds.h5'')]\<rparr>"
  have r: "fst (prepare_confounds ?w ''sub-01_confounds.h5'' ''R'' True)
       = Inr \<lparr>shape = [3, 2], strides = [1, 3], buffer = [1, 2, 3, 4, 5, 6]\<rparr>"
    and m: "fst (prepare_confounds ?w ''sub-01_confounds.h5'' ''missing_key'' True)
       = Inl (KeyError ''missing_key'')"
    by (simp_all add: example_defs run_defs)
  show ?thesis
    using r m prepare_confounds_handles [of ?w "''sub-01_confounds.h5''" "''R''" True]
      prepare_confounds_handles [of ?w "''sub-01_confounds.h5''" "''missing_key''" True]
    by simp
qed

text \<open>
  C6. The result of a call is a function of the path, the key, the flag and the contents
  of the file system alone: two calls with the same arguments in worlds with the same
  files return the same array (or raise the same error), whatever else differs between
  the worlds. So the call repeated right after itself returns what it returned first.
\<close>

theorem prepare_confounds_deterministic:
  assumes "files w' = files w"
  shows "fst (prepare_confounds w' conf key transpose') = fst (prepare_confounds w conf key transpose')"
  using assms by (rule prepare_confounds_fst_files)

theorem prepare_confounds_deterministic_witness:
  "files (snd (prepare_confounds example_world ''sub-01_confounds.h5'' ''R'' True))
     = files example_world
   \<and> fst (prepare_confounds example_world ''sub-01_confounds.h5'' ''R'' True)
       = Inr \<lparr>shape = [3, 2], strides = [1, 3], buffer = [1, 2, 3, 4, 5, 6]\<rparr>
   \<and> fst (prepare_confounds
            (snd (prepare_confounds example_world ''sub-01_confounds.h5'' ''R'' True))
            ''sub-01_confounds.h5'' ''R'' True)
       = Inr \<lparr>shape = [3, 2], strides = [1, 3], buffer = [1, 2, 3, 4, 5, 6]\<rparr>"
proof -
  have f: "files (snd (prepare_confounds example_world ''sub-01_confounds.h5'' ''R'' True))
             = files example_world"
    by (rule prepare_confounds_files)
  have r: "fst (prepare_confounds example_world ''sub-01_confounds.h5'' ''R'' True)
       = Inr \<lparr>shape = [3, 2], strides = [1, 3], buffer = [1, 2, 3, 4, 5, 6]\<rparr>"
    by (simp add: example_defs run_defs)
  show ?thesis
    using f r prepare_confounds_deterministic [OF f, of "''sub-01_confounds.h5''" "''R''" True]
    by simp
qed

text \<open>
  C7. Every array the function returns is given back by transposing it twice; and one
  transposition of it is the transpose indeed: the element at an index of the array is
  the element at the reversed index of its \<^verbatim>\<open>.T\<close>.
\<close>

theorem prepare_confounds_T_T:
  assumes "fst (prepare_confounds w conf key transpose') = Inr A"
  shows "ndarray_T (ndarray_T A) = A
       \<and> (\<forall>idx. item (ndarray_T A) (rev idx) = item A idx)"
  using prepare_confounds_strides [OF assms]
  by (simp add: ndarray_T_ndarray_T item_ndarray_T)

theorem prepare_confounds_T_T_witness:
  "fst (prepare_confounds example_world ''sub-01_confounds.h5'' ''R'' True)
     = Inr \<lparr>shape = [3, 2], strides = [1, 3], buffer = [1, 2, 3, 4, 5, 6]\<rparr>
   \<and> ndarray_T \<lparr>shape = [3, 2], strides = [1, 3], buffer = [1, 2, 3, 4, 5, 6 :: int]\<rparr>
       = \<lparr>shape = [2, 3], strides = [3, 1], buffer = [1, 2, 3, 4, 5, 6]\<rparr>
   \<and> ndarray_T (ndarray_T \<lparr>shape = [3, 2], strides = [1, 3], buffer = [1, 2, 3, 4, 5, 6 :: int]\<rparr>)
       = \<lparr>shape = [3, 2], strides = [1, 3], buffer = [1, 2, 3, 4, 5, 6]\<rparr>"
proof -
  have r: "fst (prepare_confounds example_world ''sub-01_confounds.h5'' ''R'' True)
       = Inr \<lparr>shape = [3, 2], strides = [1, 3], buffer = [1, 2, 3, 4, 5, 6]\<rparr>"
    by (simp add: example_defs run_defs)
  have t: "ndarray_T \<lparr>shape = [3, 2], strides = [1, 3], buffer = [1, 2, 3, 4, 5, 6 :: int]\<rparr>
       = \<lparr>shape = [2, 3], strides = [3, 1], buffer = [1, 2, 3, 4, 5, 6]\<rparr>"
    by (simp add: ndarray_T_def)
  show ?thesis
    using r t prepare_confounds_T_T [OF r] by simp
qed

text \<open>
  C8. The result depends on the file only through the array bound to the requested key:
  two files (in the same world or in two) that both bind the key to the same array give
  the same result, whatever other members they have and in whatever order their members
  are enumerated.
\<close>

theorem prepare_confounds_only_key:
  assumes "files w1 conf1 = Hdf5 kvs1" and "files w2 conf2 = Hdf5 kvs2"
    and "distinct (map fst kvs1)" and "distinct (map fst kvs2)"
    and "(key, v) \<in> set kvs1" and "(key, v) \<in> set kvs2"
  shows "fst (prepare_confounds w1 conf1 key transpose')
           = fst (prepare_confounds w2 conf2 key transpose')"
  using prepare_confounds_found [OF assms(1,3,5)] prepare_confounds_found [OF assms(2,4,6)]
  by simp

theorem prepare_confounds_only_key_witness:
  "files example_world ''sub-01_confounds.h5'' = Hdf5 sub01
   \<and> files example_world ''sub-02_confounds.h5'' = Hdf5 sub02
   \<and> distinct (map fst sub01) \<and> distinct (map fst sub02)
   \<and> (''R'', confounds_R) \<in> set sub01 \<and> (''R'', confounds_R) \<in> set sub02
   \<and> sub01 \<noteq> sub02
   \<and> fst (prepare_confounds example_world ''sub-01_confounds.h5'' ''R'' True)
       = Inr \<lparr>shape = [3, 2], strides = [1, 3], buffer = [1, 2, 3, 4, 5, 6]\<rparr>
   \<and> fst (prepare_confounds example_world ''sub-02_confounds.h5'' ''R'' True)
       = Inr \<lparr>shape = [3, 2], strides = [1, 3], buffer = [1, 2, 3, 4, 5, 6]\<rparr>"
proof -
  have h: "files example_world ''sub-01_confounds.h5'' = Hdf5 sub01"
    "files example_world ''sub-02_confounds.h5'' = Hdf5 sub02"
    "distinct (map fst sub01)" "distinct (map fst sub02)"
    "(''R'', confounds_R) \<in> set sub01" "(''R'', confounds_R) \<in> set sub02"
    by (simp_all add: example_defs)
  have n: "sub01 \<noteq> sub02"
    by (simp add: sub01_def sub02_def)
  have r: "fst (prepare_confounds example_world ''sub-01_confounds.h5'' ''R'' True)
       = Inr \<lparr>shape = [3, 2], strides = [1, 3], buffer = [1, 2, 3, 4, 5, 6]\<rparr>"
    by (simp add: example_defs run_defs)
  show ?thesis
    using h n r prepare_confounds_only_key [OF h, of True] by simp
qed

text \<open>
  C9, as the spec has it, fails on the code where the call fails on an absent key. The
  second example file has no member \<open>tr\<close>: the call ends with KeyError and the world is
  not what it was, for the handle of the file is open and the arrays read from the file
  are still alive.
\<close>

theorem prepare_confounds_frame_counterexample:
  "fst (prepare_confounds example_world ''sub-02_confounds.h5'' ''tr'' False)
     = Inl (KeyError ''tr'')
   \<and> handles (snd (prepare_confounds example_world ''sub-02_confounds.h5'' ''tr'' False))
       = [(0, ''sub-02_confounds.h5'')]
   \<and> kept (snd (prepare_confounds example_world ''sub-02_confounds.h5'' ''tr'' False))
       = [(''motion'', \<lparr>shape = [1], strides = [1], buffer = [0]\<rparr>),
          (''R'', \<lparr>shape = [2, 3], strides = [3, 1], buffer = [1, 2, 3, 4, 5, 6]\<rparr>)]
   \<and> snd (prepare_confounds example_world ''sub-02_confounds.h5'' ''tr'' False)
       \<noteq> example_world"
proof -
  have h: "handles (snd (prepare_confounds example_world ''sub-02_confounds.h5'' ''tr'' False))
       = [(0, ''sub-02_confounds.h5'')]"
    by (simp add: example_defs run_defs)
  have "handles example_world = []"
    by (simp add: example_world_def)
  with h have "snd (prepare_confounds example_world ''sub-02_confounds.h5'' ''tr'' False)
       \<noteq> example_world"
    by auto
  with h show ?thesis
    by (simp add: example_defs run_defs)
qed

text \<open>
  C9, amended. Whenever the call returns an array, and whenever it fails because the
  file cannot be opened, it has no side effect beyond reading the input file: the world
  after the call is the world before it. No file is changed, no handle is open that was
  not open before, nothing is cached, and no array of the loader is alive but the one
  returned, which the caller alone owns. When the call fails on an absent key, the
  world changes in this and nothing else: the handle of the file stays open and the
  arrays of the dictionary stay alive. In every case no later call, of any path, key and
  flag, returns anything else than it would have returned had this call not been made.
\<close>

theorem prepare_confounds_frame:
  "snd (prepare_confounds w conf key transpose') =
     (case fst (prepare_confounds w conf key transpose') of
        Inr a \<Rightarrow> w
      | Inl (OSError n) \<Rightarrow> w
      | Inl (KeyError k) \<Rightarrow>
          w\<lparr>handles := handles w @ [(next_fid (handles w), conf)],
             kept := kept w @ load_arrays (h5py_items w (File (next_fid (handles w)) conf)) []\<rparr>)
   \<and> fst (prepare_confounds (snd (prepare_confounds w conf key transpose')) conf2 key2 transpose2)
       = fst (prepare_confounds w conf2 key2 transpose2)"
proof -
  have f: "files (snd (prepare_confounds w conf key transpose')) = files w"
    by (rule prepare_confounds_files)
  show ?thesis
    using prepare_confounds_snd [of w conf key transpose'] prepare_confounds_fst_files [OF f]
    by blast
qed

theorem prepare_confounds_frame_witness:
  "fst (prepare_confounds example_world ''sub-01_confounds.h5'' ''R'' True)
     = Inr \<lparr>shape = [3, 2], strides = [1, 3], buffer = [1, 2, 3, 4, 5, 6]\<rparr>
   \<and> snd (prepare_confounds example_world ''sub-01_confounds.h5'' ''R'' True) = example_world
   \<and> fst (prepare_confounds example_world ''sub-01_confounds.h5'' ''R'' False)
       = Inr \<lparr>shape = [2, 3], strides = [3, 1], buffer = [1, 2, 3, 4, 5, 6]\<rparr>
   \<and> snd (prepare_confounds example_world ''sub-01_confounds.h5'' ''R'' False) = example_world"
proof -
  have t: "fst (prepare_confounds example_world ''sub-01_confounds.h5'' ''R'' True)
       = Inr \<lparr>shape = [3, 2], strides = [1, 3], buffer = [1, 2, 3, 4, 5, 6]\<rparr>"
    and f: "fst (prepare_confounds example_world ''sub-01_confounds.h5'' ''R'' False)
       = Inr \<lparr>shape = [2, 3], strides = [3, 1], buffer = [1, 2, 3, 4, 5, 6]\<rparr>"
    by (simp_all add: example_defs run_defs)
  show ?thesis
    using t f prepare_confounds_frame [of example_world "''sub-01_confounds.h5''" "''R''" True]
      prepare_confounds_frame [of example_world "''sub-01_confounds.h5''" "''R''" False]
    by simp
qed

text \<open>
  C10. When the array bound to the requested key is 1-dimensional, the call with
  \<open>transpose=True\<close> raises nothing and returns that array as it is stored: one axis of
  the stored length and stride 1 over the stored elements.
\<close>

theorem prepare_confounds_1d:
  assumes "files w conf = Hdf5 kvs" and "distinct (map fst kvs)" and "(key, v) \<in> set kvs"
    and "dshape v = [n]"
  shows "fst (prepare_confounds w conf key True) = Inr (np_array v)
       \<and> np_array v = \<lparr>shape = [n], strides = [1], buffer = ddata v\<rparr>"
  using prepare_confounds_found [OF assms(1-3), of True] assms(4)
  by (simp add: ndarray_T_def np_array_def)

theorem prepare_confounds_1d_witness:
  "files example_world ''sub-02_confounds.h5'' = Hdf5 sub02
   \<and> distinct (map fst sub02) \<and> (''motion'', \<lparr>dshape = [1], ddata = [0]\<rparr>) \<in> set sub02
   \<and> fst (prepare_confounds example_world ''sub-02_confounds.h5'' ''motion'' True)
       = Inr \<lparr>shape = [1], strides = [1], buffer = [0]\<rparr>"
proof -
  have h: "files example_world ''sub-02_confounds.h5'' = Hdf5 sub02"
    "distinct (map fst sub02)" "(''motion'', \<lparr>dshape = [1], ddata = [0]\<rparr>) \<in> set sub02"
    "dshape \<lparr>dshape = [1], ddata = [0::int]\<rparr> = [1]"
    by (simp_all add: example_defs)
  show ?thesis
    using h prepare_confounds_1d [OF h] by (simp add: np_array_def)
qed


end
